theory Spec2Isabelle
  imports Complex_Main "HOL-Library.Char_ord" "HOL-Library.List_Lexorder"
    "HOL-Library.Product_Lexorder"
begin

section \<open>Column values\<close>

text \<open>
  A value of a numeric column is a 64-bit float (\<open>float64\<close>: a finite double, plus or
  minus infinity, or not-a-number) or a 64-bit integer (\<open>int64\<close>). The payload of
  \<open>Fin\<close> is the real number the double stands for; every operation rounds its exact
  result to the nearest double, ties to even, and overflows to an infinity, as IEEE
  754 prescribes. Integer addition wraps around. The sign of zero is not modelled.
\<close>

datatype fval = Fin real | PInf | NInf | NaN | Int64 int

subsection \<open>Rounding to a double\<close>

definition pow2 :: "int \<Rightarrow> real" where
  "pow2 e = (if 0 \<le> e then 2 ^ nat e else 1 / 2 ^ nat (- e))"

text \<open>The binary exponent of a positive number: the \<open>e\<close> with \<open>2 ^ e \<le> x < 2 ^ (e + 1)\<close>,
  searched upwards from 0 for \<open>x \<ge> 2\<close> and downwards otherwise. The search stops
  at 1100 and at \<open>- 1100\<close>, beyond the range of doubles.\<close>

function expo_up :: "real \<Rightarrow> int \<Rightarrow> int" where
  "expo_up x e = (if 2 \<le> x \<and> e < 1100 then expo_up (x / 2) (e + 1) else e)"
  by pat_completeness auto
termination
  by (relation "measure (\<lambda>(x, e). nat (1100 - e))") auto

function expo_down :: "real \<Rightarrow> int \<Rightarrow> int" where
  "expo_down x e = (if x < 1 \<and> - 1100 < e then expo_down (x * 2) (e - 1) else e)"
  by pat_completeness auto
termination
  by (relation "measure (\<lambda>(x, e). nat (1100 + e))") auto

definition expoente :: "real \<Rightarrow> int" where
  "expoente x = (if 2 \<le> x then expo_up x 0 else expo_down x 0)"

text \<open>The nearest integer, a tie going to the even one.\<close>

definition arredonda_par :: "real \<Rightarrow> int" where
  "arredonda_par y =
     (let f = \<lfloor>y\<rfloor>; d = y - of_int f
      in if d < 1 / 2 then f else if 1 / 2 < d then f + 1
         else if even f then f else f + 1)"

text \<open>The double nearest to a real: 53 significant bits, the spacing never below
  \<open>2 ^ - 1074\<close> (subnormal numbers), an infinity from \<open>2 ^ 1024\<close> on.\<close>

definition round64 :: "real \<Rightarrow> fval" where
  "round64 x =
     (if x = 0 then Fin 0
      else (let e = max (expoente \<bar>x\<bar>) (- 1022);
                u = pow2 (e - 52);
                r = of_int (arredonda_par (x / u)) * u
            in if pow2 1024 \<le> \<bar>r\<bar> then (if 0 < x then PInf else NInf) else Fin r))"

subsection \<open>Integers of 64 bits\<close>

definition em_int64 :: "int \<Rightarrow> bool" where
  "em_int64 n = (- (2 ^ 63) \<le> n \<and> n < 2 ^ 63)"

definition wrap64 :: "int \<Rightarrow> int" where
  "wrap64 n = (n + 2 ^ 63) mod 2 ^ 64 - 2 ^ 63"

fun e_int64 :: "fval \<Rightarrow> bool" where
  "e_int64 (Int64 n) = True"
| "e_int64 _ = False"

fun int_de :: "fval \<Rightarrow> int" where
  "int_de (Int64 n) = n"
| "int_de _ = 0"

text \<open>An integer that meets a float is converted to the nearest double first.\<close>

fun to_double :: "fval \<Rightarrow> fval" where
  "to_double (Int64 n) = round64 (of_int n)"
| "to_double v = v"

subsection \<open>Arithmetic on doubles\<close>

text \<open>Division as numpy performs it on float arrays: no exception, \<open>x / 0\<close> is an
  infinity of the sign of \<open>x\<close>, and \<open>0 / 0\<close> is not-a-number. In the functions of
  this subsection both operands are doubles; the last equation of each also covers an
  integer operand, which does not occur.\<close>

fun fdiv64 :: "fval \<Rightarrow> fval \<Rightarrow> fval" where
  "fdiv64 (Fin a) (Fin b) =
     (if b = 0 then (if 0 < a then PInf else if a < 0 then NInf else NaN)
      else round64 (a / b))"
| "fdiv64 (Fin a) PInf = Fin 0"
| "fdiv64 (Fin a) NInf = Fin 0"
| "fdiv64 PInf (Fin b) = (if b < 0 then NInf else PInf)"
| "fdiv64 NInf (Fin b) = (if b < 0 then PInf else NInf)"
| "fdiv64 _ _ = NaN"

fun fmul64 :: "fval \<Rightarrow> fval \<Rightarrow> fval" where
  "fmul64 (Fin a) (Fin b) = round64 (a * b)"
| "fmul64 (Fin a) PInf = (if 0 < a then PInf else if a < 0 then NInf else NaN)"
| "fmul64 (Fin a) NInf = (if 0 < a then NInf else if a < 0 then PInf else NaN)"
| "fmul64 PInf (Fin b) = (if 0 < b then PInf else if b < 0 then NInf else NaN)"
| "fmul64 NInf (Fin b) = (if 0 < b then NInf else if b < 0 then PInf else NaN)"
| "fmul64 PInf PInf = PInf"
| "fmul64 PInf NInf = NInf"
| "fmul64 NInf PInf = NInf"
| "fmul64 NInf NInf = PInf"
| "fmul64 _ _ = NaN"

fun fadd64 :: "fval \<Rightarrow> fval \<Rightarrow> fval" where
  "fadd64 (Fin a) (Fin b) = round64 (a + b)"
| "fadd64 (Fin a) PInf = PInf"
| "fadd64 (Fin a) NInf = NInf"
| "fadd64 PInf (Fin b) = PInf"
| "fadd64 NInf (Fin b) = NInf"
| "fadd64 PInf PInf = PInf"
| "fadd64 NInf NInf = NInf"
| "fadd64 _ _ = NaN"

fun fneg :: "fval \<Rightarrow> fval" where
  "fneg (Fin a) = Fin (- a)"
| "fneg PInf = NInf"
| "fneg NInf = PInf"
| "fneg v = v"

definition fsub64 :: "fval \<Rightarrow> fval \<Rightarrow> fval" where
  "fsub64 a b = fadd64 a (fneg b)"

text \<open>Comparisons: every comparison with not-a-number is false.\<close>

fun fle64 :: "fval \<Rightarrow> fval \<Rightarrow> bool" where
  "fle64 (Fin a) (Fin b) = (a \<le> b)"
| "fle64 (Fin a) PInf = True"
| "fle64 NInf (Fin b) = True"
| "fle64 NInf NInf = True"
| "fle64 NInf PInf = True"
| "fle64 PInf PInf = True"
| "fle64 _ _ = False"

fun flt64 :: "fval \<Rightarrow> fval \<Rightarrow> bool" where
  "flt64 (Fin a) (Fin b) = (a < b)"
| "flt64 (Fin a) PInf = True"
| "flt64 NInf (Fin b) = True"
| "flt64 NInf PInf = True"
| "flt64 _ _ = False"

subsection \<open>Arithmetic on column values\<close>

text \<open>True division and the product with a Python number always give a float.
  The sum of two integers is an integer and wraps around; any other sum is a float.\<close>

definition fdiv :: "fval \<Rightarrow> fval \<Rightarrow> fval" where
  "fdiv a b = fdiv64 (to_double a) (to_double b)"

definition fmul :: "fval \<Rightarrow> fval \<Rightarrow> fval" where
  "fmul a b = fmul64 (to_double a) (to_double b)"

fun fadd :: "fval \<Rightarrow> fval \<Rightarrow> fval" where
  "fadd (Int64 m) (Int64 n) = Int64 (wrap64 (m + n))"
| "fadd a b = fadd64 (to_double a) (to_double b)"

definition fle :: "fval \<Rightarrow> fval \<Rightarrow> bool" where
  "fle a b = fle64 (to_double a) (to_double b)"

definition flt :: "fval \<Rightarrow> fval \<Rightarrow> bool" where
  "flt a b = flt64 (to_double a) (to_double b)"

definition fgt :: "fval \<Rightarrow> fval \<Rightarrow> bool" where
  "fgt x y = flt y x"

text \<open>A finite number: a finite double or an integer. A zero: the float or the
  integer one.\<close>

fun is_fin :: "fval \<Rightarrow> bool" where
  "is_fin (Fin _) = True"
| "is_fin (Int64 _) = True"
| "is_fin _ = False"

fun is_zero :: "fval \<Rightarrow> bool" where
  "is_zero (Fin a) = (a = 0)"
| "is_zero (Int64 n) = (n = 0)"
| "is_zero _ = False"

section \<open>The frame read from the CSV file\<close>

text \<open>
  The rows of the frame that \<open>pd.read_csv\<close> returns (line 18), cell by cell. A cell
  of a numeric column is a number or something \<open>pd.to_numeric\<close> cannot parse:
  \<open>Numero (Int64 n)\<close> is an integer literal, \<open>Numero (Fin a)\<close> a decimal literal of
  value \<open>a\<close>, \<open>Numero NaN\<close> an empty cell. A cell of the \<open>Plataforma\<close> or
  \<open>Campanha\<close> column is text, an integer literal, or empty. A decimal literal is
  taken to be read as the double nearest to it, an integer literal outside the 64-bit
  range as a float; an identifier cell that holds a decimal fraction has no
  counterpart here.
\<close>

datatype celula = Numero fval | NaoNumerico

datatype celula_id = Texto string | Inteira int | Vazia

record linha_csv =
  Plataforma_csv :: celula_id
  Campanha_csv :: celula_id
  Investimento_csv :: celula
  Impressoes_csv :: celula
  Cliques_csv :: celula
  Leads_csv :: celula
  Novos_Clientes_csv :: celula
  Outros_Custos_csv :: celula

text \<open>An identifier after processing: a string or a number. \<open>Zero\<close> is the 0 that
  \<open>fillna(0)\<close> puts in place of a missing identifier.\<close>

datatype identificador = Nome string | Num int

abbreviation Zero :: identificador where
  "Zero \<equiv> Num 0"

record linha =
  Plataforma :: identificador
  Campanha :: identificador
  Investimento :: fval
  Impressoes :: fval
  Cliques :: fval
  Leads :: fval
  Novos_Clientes :: fval
  Outros_Custos :: fval
  CTR :: fval
  CPC :: fval
  CPM :: fval
  CPL :: fval
  Custo_Total_Diario :: fval
  CAC_Diario :: fval

section \<open>carregar_e_processar_dados\<close>

subsection \<open>The numeric columns (lines 21 to 23)\<close>

text \<open>A column is an \<open>int64\<close> column when every one of its cells is an integer
  literal in the 64-bit range. Any other column is a \<open>float64\<close> column: each number
  is stored as the nearest double, and \<open>pd.to_numeric(col, errors='coerce')\<close> turns
  what does not parse into not-a-number.\<close>

fun celula_inteira :: "celula \<Rightarrow> bool" where
  "celula_inteira (Numero (Int64 n)) = em_int64 n"
| "celula_inteira _ = False"

definition coluna_inteira :: "(linha_csv \<Rightarrow> celula) \<Rightarrow> linha_csv list \<Rightarrow> bool" where
  "coluna_inteira campo csv = list_all (\<lambda>r. celula_inteira (campo r)) csv"

fun to_numeric :: "celula \<Rightarrow> fval" where
  "to_numeric (Numero (Fin a)) = round64 a"
| "to_numeric (Numero (Int64 n)) = round64 (of_int n)"
| "to_numeric (Numero v) = v"
| "to_numeric NaoNumerico = NaN"

text \<open>\<open>.fillna(0)\<close> on a numeric value.\<close>

fun fillna0 :: "fval \<Rightarrow> fval" where
  "fillna0 NaN = Fin 0"
| "fillna0 v = v"

text \<open>The value of a cell of column \<open>campo\<close> after line 23.\<close>

definition coluna_numerica :: "(linha_csv \<Rightarrow> celula) \<Rightarrow> linha_csv list \<Rightarrow> linha_csv \<Rightarrow> fval" where
  "coluna_numerica campo csv r =
     (case campo r of
        Numero (Int64 n) \<Rightarrow>
          if coluna_inteira campo csv then Int64 n else round64 (of_int n)
      | c \<Rightarrow> fillna0 (to_numeric c))"

subsection \<open>The metrics (lines 28 to 46)\<close>

text \<open>Line 29, \<open>lambda x: x if x <= 100 else 0\<close>: the comparison is false for
  not-a-number and for plus infinity, true for minus infinity. The 0 of the other
  branch is kept as the float zero.\<close>

definition previne_maior_100 :: "fval \<Rightarrow> fval" where
  "previne_maior_100 x = (if fle x (Fin 100) then x else Fin 0)"

text \<open>Line 46, \<open>df.replace([inf, -inf], pd.NA).fillna(0)\<close>, on a numeric value. The
  call is on the whole frame, so it reaches the identifier columns too (below).\<close>

fun replace_inf :: "fval \<Rightarrow> fval" where
  "replace_inf PInf = NaN"
| "replace_inf NInf = NaN"
| "replace_inf v = v"

definition tratar :: "fval \<Rightarrow> fval" where
  "tratar v = fillna0 (replace_inf v)"

subsection \<open>The identifier columns\<close>

text \<open>
  \<open>read_csv\<close> decides the type of a column from all its cells. A column with at
  least one text cell holds strings: an integer literal stays the string of its
  digits, and an empty cell is missing. A column without text is numeric: \<open>int64\<close>
  when every cell is an integer in the 64-bit range, else \<open>float64\<close> with the
  empty cells missing. Line 46 then puts 0 in place of what is missing.
\<close>

definition digito :: "nat \<Rightarrow> char" where
  "digito d = ''0123456789'' ! d"

function dec_nat :: "nat \<Rightarrow> string" where
  "dec_nat n = (if n < 10 then [digito n] else dec_nat (n div 10) @ [digito (n mod 10)])"
  by pat_completeness auto
termination
  by (relation "measure id") auto

definition dec_int :: "int \<Rightarrow> string" where
  "dec_int i = (if i < 0 then CHR ''-'' # dec_nat (nat (- i)) else dec_nat (nat i))"

fun e_texto :: "celula_id \<Rightarrow> bool" where
  "e_texto (Texto s) = True"
| "e_texto _ = False"

fun celula_id_inteira :: "celula_id \<Rightarrow> bool" where
  "celula_id_inteira (Inteira n) = em_int64 n"
| "celula_id_inteira _ = False"

definition coluna_texto :: "(linha_csv \<Rightarrow> celula_id) \<Rightarrow> linha_csv list \<Rightarrow> bool" where
  "coluna_texto campo csv = list_ex (\<lambda>r. e_texto (campo r)) csv"

definition coluna_id_inteira :: "(linha_csv \<Rightarrow> celula_id) \<Rightarrow> linha_csv list \<Rightarrow> bool" where
  "coluna_id_inteira campo csv = list_all (\<lambda>r. celula_id_inteira (campo r)) csv"

fun int_do_double :: "fval \<Rightarrow> int" where
  "int_do_double (Fin a) = \<lfloor>a\<rfloor>"
| "int_do_double v = 0"

text \<open>The identifier of a row in column \<open>campo\<close> when the function returns.\<close>

definition tratar_ident ::
  "(linha_csv \<Rightarrow> celula_id) \<Rightarrow> linha_csv list \<Rightarrow> linha_csv \<Rightarrow> identificador" where
  "tratar_ident campo csv r =
     (if coluna_texto campo csv then
        (case campo r of Texto s \<Rightarrow> Nome s | Inteira n \<Rightarrow> Nome (dec_int n) | Vazia \<Rightarrow> Num 0)
      else if coluna_id_inteira campo csv then
        (case campo r of Inteira n \<Rightarrow> Num n | _ \<Rightarrow> Num 0)
      else
        (case campo r of Inteira n \<Rightarrow> Num (int_do_double (round64 (of_int n))) | _ \<Rightarrow> Num 0))"

subsection \<open>The function\<close>

text \<open>One row through the function, the steps in the order of the source. The
  column operations of the source act on each row independently, once the types of
  the columns are known.\<close>

definition processar_linha :: "linha_csv list \<Rightarrow> linha_csv \<Rightarrow> linha" where
  "processar_linha csv r =
    (let investimento = coluna_numerica Investimento_csv csv r;
         impressoes = coluna_numerica Impressoes_csv csv r;
         cliques = coluna_numerica Cliques_csv csv r;
         leads = coluna_numerica Leads_csv csv r;
         novos_clientes = coluna_numerica Novos_Clientes_csv csv r;
         outros_custos = coluna_numerica Outros_Custos_csv csv r;
         ctr = previne_maior_100 (fmul (fdiv cliques impressoes) (Fin 100));
         cpc = fdiv investimento cliques;
         cpm = fmul (fdiv investimento impressoes) (Fin 1000);
         cpl = fdiv investimento leads;
         custo_total_diario = fadd investimento outros_custos;
         cac_diario = fdiv custo_total_diario novos_clientes
     in \<lparr> Plataforma = tratar_ident Plataforma_csv csv r,
          Campanha = tratar_ident Campanha_csv csv r,
          Investimento = tratar investimento,
          Impressoes = tratar impressoes,
          Cliques = tratar cliques,
          Leads = tratar leads,
          Novos_Clientes = tratar novos_clientes,
          Outros_Custos = tratar outros_custos,
          CTR = tratar ctr,
          CPC = tratar cpc,
          CPM = tratar cpm,
          CPL = tratar cpl,
          Custo_Total_Diario = tratar custo_total_diario,
          CAC_Diario = tratar cac_diario \<rparr>)"

definition carregar_e_processar_dados :: "linha_csv list \<Rightarrow> linha list" where
  "carregar_e_processar_dados csv = map (processar_linha csv) csv"

section \<open>The filters\<close>

text \<open>Lines 72 to 75, the two \<open>isin\<close> masks. The selections come from the sidebar;
  they are parameters here.\<close>

definition df_filtrado ::
  "linha list \<Rightarrow> identificador list \<Rightarrow> identificador list \<Rightarrow> linha list" where
  "df_filtrado df_metricas plataforma_selecionada campanha_selecionada =
     filter (\<lambda>r. Plataforma r \<in> set plataforma_selecionada \<and>
                  Campanha r \<in> set campanha_selecionada) df_metricas"

section \<open>Column reductions\<close>

definition notna :: "fval \<Rightarrow> bool" where
  "notna v = (v \<noteq> NaN)"

definition nan_para_zero :: "fval \<Rightarrow> fval" where
  "nan_para_zero v = (if v = NaN then Fin 0 else v)"

text \<open>The sum of an \<open>int64\<close> column wraps around.\<close>

definition soma_int64 :: "fval list \<Rightarrow> fval" where
  "soma_int64 xs = Int64 (foldl (\<lambda>a v. wrap64 (a + int_de v)) 0 xs)"

text \<open>
  The sum of a \<open>float64\<close> array as numpy computes it (\<open>pairwise_sum\<close> of its
  \<open>add\<close> loop): fewer than 8 elements are added from left to right, starting from 0;
  up to 128 elements are added in 8 interleaved lanes that are combined pairwise,
  the rest of a length that is no multiple of 8 being added at the end; a longer
  array is split in two halves, the first of a length that is a multiple of 8.
\<close>

definition soma_bloco :: "fval list \<Rightarrow> fval" where
  "soma_bloco a =
     (let m = length a - length a mod 8;
          r = map (\<lambda>j. foldl fadd64 (a ! j) (map (\<lambda>b. a ! (8 * b + j)) [1..<m div 8])) [0..<8];
          res = fadd64 (fadd64 (fadd64 (r ! 0) (r ! 1)) (fadd64 (r ! 2) (r ! 3)))
                       (fadd64 (fadd64 (r ! 4) (r ! 5)) (fadd64 (r ! 6) (r ! 7)))
      in foldl fadd64 res (drop m a))"

definition metade :: "fval list \<Rightarrow> nat" where
  "metade a = length a div 2 - (length a div 2) mod 8"

function pairwise_sum :: "fval list \<Rightarrow> fval" where
  "pairwise_sum a =
     (if length a < 8 then foldl fadd64 (Fin 0) a
      else if length a \<le> 128 then soma_bloco a
      else fadd64 (pairwise_sum (take (metade a) a)) (pairwise_sum (drop (metade a) a)))"
  by pat_completeness auto
termination
  by (relation "measure length") (auto simp: metade_def)

text \<open>\<open>Series.sum()\<close> and \<open>Series.mean()\<close> (\<open>nansum\<close> and \<open>nanmean\<close> of pandas,
  without the optional bottleneck accelerator): not-a-number entries count as 0 in
  the sum and are left out of the count; the mean is a float.\<close>

definition pd_sum :: "fval list \<Rightarrow> fval" where
  "pd_sum xs =
     (if list_all e_int64 xs then soma_int64 xs
      else pairwise_sum (map (nan_para_zero \<circ> to_double) xs))"

definition pd_mean :: "fval list \<Rightarrow> fval" where
  "pd_mean xs =
     fdiv64 (pairwise_sum (map (nan_para_zero \<circ> to_double) xs))
            (round64 (real (length (filter notna (map to_double xs)))))"

text \<open>
  The sum and the mean of a group (\<open>group_sum\<close> and \<open>group_mean\<close> of pandas): the
  floats of the group are added from left to right with Kahan's compensation, a
  compensation that is not-a-number being reset to 0; an \<open>int64\<close> column is summed
  with wrap-around; the mean is the compensated sum of the doubles over their number.
\<close>

fun kahan :: "fval \<Rightarrow> fval \<Rightarrow> fval list \<Rightarrow> fval" where
  "kahan sumx compensation [] = sumx"
| "kahan sumx compensation (val # vals) =
     (let y = fsub64 val compensation;
          t = fadd64 sumx y;
          c = fsub64 (fsub64 t sumx) y
      in kahan t (if c = NaN then Fin 0 else c) vals)"

definition grupo_sum :: "fval list \<Rightarrow> fval" where
  "grupo_sum xs =
     (if list_all e_int64 xs then soma_int64 xs
      else kahan (Fin 0) (Fin 0) (filter notna (map to_double xs)))"

definition grupo_mean :: "fval list \<Rightarrow> fval" where
  "grupo_mean xs =
     (let ys = filter notna (map to_double xs)
      in fdiv64 (kahan (Fin 0) (Fin 0) ys) (round64 (real (length ys))))"

section \<open>The key figures\<close>

text \<open>Lines 82 to 92.\<close>

definition total_investimento :: "linha list \<Rightarrow> fval" where
  "total_investimento df = pd_sum (map Investimento df)"

definition total_clientes :: "linha list \<Rightarrow> fval" where
  "total_clientes df = pd_sum (map Novos_Clientes df)"

definition total_leads :: "linha list \<Rightarrow> fval" where
  "total_leads df = pd_sum (map Leads df)"

definition cpc_medio :: "linha list \<Rightarrow> fval" where
  "cpc_medio df = pd_mean (map CPC df)"

definition ctr_medio :: "linha list \<Rightarrow> fval" where
  "ctr_medio df = pd_mean (map CTR df)"

definition cpl_medio :: "linha list \<Rightarrow> fval" where
  "cpl_medio df =
     (if fgt (total_leads df) (Fin 0)
      then fdiv (total_investimento df) (total_leads df) else Fin 0)"

definition cac_geral :: "linha list \<Rightarrow> fval" where
  "cac_geral df =
     (if fgt (total_clientes df) (Fin 0)
      then fdiv (pd_sum (map Custo_Total_Diario df)) (total_clientes df) else Fin 0)"

text \<open>The four values handed to \<open>st.metric\<close>.\<close>

record metricas_chave =
  kpi_cpc_medio :: fval
  kpi_ctr_medio :: fval
  kpi_cpl_medio :: fval
  kpi_cac_geral :: fval

definition painel_kpis :: "linha list \<Rightarrow> metricas_chave" where
  "painel_kpis df =
     \<lparr> kpi_cpc_medio = cpc_medio df,
       kpi_ctr_medio = ctr_medio df,
       kpi_cpl_medio = cpl_medio df,
       kpi_cac_geral = cac_geral df \<rparr>"

section \<open>The campaign table\<close>

text \<open>
  Lines 105 to 111,
  \<open>df.groupby(['Plataforma', 'Campanha']).agg(...).reset_index()\<close>. The call leaves
  \<open>sort\<close> at its default \<open>True\<close>: one row per key that occurs, the rows in
  ascending order of the key (the platform first, then the campaign). Numbers
  compare by value and sort before every string; strings compare character by
  character.
\<close>

record linha_campanha =
  Plataforma_grupo :: identificador
  Campanha_grupo :: identificador
  Investimento_grupo :: fval
  Leads_grupo :: fval
  Clientes :: fval
  CPL_Medio :: fval
  CTR_Medio :: fval

definition chave :: "linha \<Rightarrow> identificador \<times> identificador" where
  "chave r = (Plataforma r, Campanha r)"

fun ordem_ident :: "identificador \<Rightarrow> nat \<times> int \<times> string" where
  "ordem_ident (Num n) = (0, n, [])"
| "ordem_ident (Nome s) = (1, 0, s)"

definition ordem_chave ::
  "identificador \<times> identificador \<Rightarrow> (nat \<times> int \<times> string) \<times> (nat \<times> int \<times> string)" where
  "ordem_chave k = (ordem_ident (fst k), ordem_ident (snd k))"

definition chaves_grupos :: "linha list \<Rightarrow> (identificador \<times> identificador) list" where
  "chaves_grupos df = sort_key ordem_chave (remdups (map chave df))"

definition agg :: "identificador \<times> identificador \<Rightarrow> linha list \<Rightarrow> linha_campanha" where
  "agg k df =
     (let grupo = filter (\<lambda>r. chave r = k) df
      in \<lparr> Plataforma_grupo = fst k,
           Campanha_grupo = snd k,
           Investimento_grupo = grupo_sum (map Investimento grupo),
           Leads_grupo = grupo_sum (map Leads grupo),
           Clientes = grupo_sum (map Novos_Clientes grupo),
           CPL_Medio = grupo_mean (map CPL grupo),
           CTR_Medio = grupo_mean (map CTR grupo) \<rparr>)"

definition df_campanhas :: "linha list \<Rightarrow> linha_campanha list" where
  "df_campanhas df = map (\<lambda>k. agg k df) (chaves_grupos df)"

section \<open>The insights\<close>

text \<open>What lines 129 to 142 show: \<open>st.error\<close> with the joined campaign names (the
  high-CPL alert), \<open>st.success\<close> (no campaign is alarming), \<open>st.warning\<close> with the
  mean CTR (the low-CTR warning).\<close>

datatype insight = Alerta_Custo string | CPL_Ok | Atencao_CTR fval

datatype erro = TypeError | ValueError

text \<open>\<open>sep.join(items)\<close>: an item that is not a string raises \<open>TypeError\<close>.\<close>

fun str_join :: "string \<Rightarrow> identificador list \<Rightarrow> erro + string" where
  "str_join sep [] = Inr []"
| "str_join sep (Num n # xs) = Inl TypeError"
| "str_join sep [Nome s] = Inr s"
| "str_join sep (Nome s # xs) =
     (case str_join sep xs of Inl e \<Rightarrow> Inl e | Inr t \<Rightarrow> Inr (s @ sep @ t))"

definition cpl_limite_alerta :: real where
  "cpl_limite_alerta = 50"

definition campanhas_cpl_alto :: "linha_campanha list \<Rightarrow> linha_campanha list" where
  "campanhas_cpl_alto campanhas =
     filter (\<lambda>g. fgt (CPL_Medio g) (Fin cpl_limite_alerta)) campanhas"

definition insight_cpl :: "linha_campanha list \<Rightarrow> erro + insight" where
  "insight_cpl campanhas =
     (if campanhas_cpl_alto campanhas \<noteq> []
      then (case str_join '', '' (map Campanha_grupo (campanhas_cpl_alto campanhas)) of
              Inl e \<Rightarrow> Inl e
            | Inr lista_campanhas \<Rightarrow> Inr (Alerta_Custo lista_campanhas))
      else Inr CPL_Ok)"

definition insight_ctr :: "fval \<Rightarrow> fval \<Rightarrow> insight list" where
  "insight_ctr total_inv ctr =
     (if fgt total_inv (Fin 0) \<and> flt ctr (Fin 1) then [Atencao_CTR ctr] else [])"

section \<open>The charts\<close>

text \<open>Line 151, \<open>px.scatter(df_campanhas, ..., size="Leads", ...)\<close>: plotly refuses a
  negative marker size with \<open>ValueError\<close>. Nothing else of lines 144 to 174 is
  modelled.\<close>

definition fig_leads :: "linha_campanha list \<Rightarrow> erro option" where
  "fig_leads campanhas =
     (if list_ex (\<lambda>g. flt (Leads_grupo g) (Fin 0)) campanhas then Some ValueError else None)"

section \<open>The script\<close>

text \<open>What one run of the module shows for a frame and the two sidebar selections:
  the key figures, the campaign table and the insights (lines 80 to 142), or the
  notice that no data matches (\<open>st.info\<close>, lines 176 and 177). An exception ends the
  run.\<close>

datatype saida =
  Painel metricas_chave "linha_campanha list" "insight list"
| Nenhum_Dado

definition app ::
  "linha_csv list \<Rightarrow> identificador list \<Rightarrow> identificador list \<Rightarrow> erro + saida" where
  "app csv plataforma_selecionada campanha_selecionada =
     (let df_metricas = carregar_e_processar_dados csv;
          df = df_filtrado df_metricas plataforma_selecionada campanha_selecionada
      in if df \<noteq> [] then
           (let kpis = painel_kpis df;
                campanhas = df_campanhas df
            in case insight_cpl campanhas of
                 Inl e \<Rightarrow> Inl e
               | Inr i1 \<Rightarrow>
                   (case fig_leads campanhas of
                      Some e \<Rightarrow> Inl e
                    | None \<Rightarrow>
                        Inr (Painel kpis campanhas
                               (i1 # insight_ctr (total_investimento df) (ctr_medio df)))))
         else Inr Nenhum_Dado)"

section \<open>Notions used to state the claims\<close>

text \<open>The key of a row of the campaign table.\<close>

definition chave_grupo :: "linha_campanha \<Rightarrow> identificador \<times> identificador" where
  "chave_grupo g = (Plataforma_grupo g, Campanha_grupo g)"

text \<open>The order the specification describes for the campaign table, written from its
  words (``first-seen order of the group key''): every key once, at the place of its
  first occurrence.\<close>

fun primeira_ocorrencia :: "'a list \<Rightarrow> 'a list" where
  "primeira_ocorrencia [] = []"
| "primeira_ocorrencia (x # xs) = x # primeira_ocorrencia (filter (\<lambda>y. y \<noteq> x) xs)"

section \<open>Example inputs\<close>

text \<open>A row with both identifiers given as text and every numeric cell a decimal
  literal. The arguments are platform, campaign, investment, impressions, clicks,
  leads, new clients and other costs.\<close>

definition registro ::
  "string \<Rightarrow> string \<Rightarrow> real \<Rightarrow> real \<Rightarrow> real \<Rightarrow> real \<Rightarrow> real \<Rightarrow> real \<Rightarrow> linha_csv" where
  "registro p c ivt imp cli lds nov out =
     \<lparr> Plataforma_csv = Texto p, Campanha_csv = Texto c,
       Investimento_csv = Numero (Fin ivt), Impressoes_csv = Numero (Fin imp),
       Cliques_csv = Numero (Fin cli), Leads_csv = Numero (Fin lds),
       Novos_Clientes_csv = Numero (Fin nov), Outros_Custos_csv = Numero (Fin out) \<rparr>"

text \<open>The same with every numeric cell an integer literal.\<close>

definition registro_inteiro ::
  "string \<Rightarrow> string \<Rightarrow> int \<Rightarrow> int \<Rightarrow> int \<Rightarrow> int \<Rightarrow> int \<Rightarrow> int \<Rightarrow> linha_csv" where
  "registro_inteiro p c ivt imp cli lds nov out =
     \<lparr> Plataforma_csv = Texto p, Campanha_csv = Texto c,
       Investimento_csv = Numero (Int64 ivt), Impressoes_csv = Numero (Int64 imp),
       Cliques_csv = Numero (Int64 cli), Leads_csv = Numero (Int64 lds),
       Novos_Clientes_csv = Numero (Int64 nov), Outros_Custos_csv = Numero (Int64 out) \<rparr>"


text \<open>Two campaigns; the platform that sorts last comes first.\<close>

definition dados_alerta :: "linha_csv list" where
  "dados_alerta =
     [registro ''Meta'' ''Promo'' 120 1000 8 2 1 0,
      registro ''Google'' ''Marca'' 200 1000 8 2 1 0]"

text \<open>One row whose campaign cell is empty.\<close>

definition sem_campanha :: "linha_csv list" where
  "sem_campanha =
     [\<lparr> Plataforma_csv = Texto ''Google'', Campanha_csv = Vazia,
        Investimento_csv = Numero (Int64 10), Impressoes_csv = Numero (Int64 128),
        Cliques_csv = Numero (Int64 8), Leads_csv = Numero (Int64 1),
        Novos_Clientes_csv = Numero (Int64 1), Outros_Custos_csv = Numero (Int64 0) \<rparr>]"

text \<open>One row of a campaign that is named by a year: 100 invested for one lead,
  one click on 128 impressions.\<close>

definition campanha_numerica :: "linha_csv list" where
  "campanha_numerica =
     [\<lparr> Plataforma_csv = Texto ''Google'', Campanha_csv = Inteira 2024,
        Investimento_csv = Numero (Int64 100), Impressoes_csv = Numero (Int64 128),
        Cliques_csv = Numero (Int64 1), Leads_csv = Numero (Int64 1),
        Novos_Clientes_csv = Numero (Int64 1), Outros_Custos_csv = Numero (Int64 0) \<rparr>]"

text \<open>A row with minus infinity in the clicks cell and one impression, and a row
  with minus 3 clicks and no impression.\<close>

definition cliques_menos_infinito :: "linha_csv list" where
  "cliques_menos_infinito =
     [\<lparr> Plataforma_csv = Texto ''Google'', Campanha_csv = Texto ''Marca'',
        Investimento_csv = Numero (Fin 10), Impressoes_csv = Numero (Fin 1),
        Cliques_csv = Numero NInf, Leads_csv = Numero (Fin 1),
        Novos_Clientes_csv = Numero (Fin 1), Outros_Custos_csv = Numero (Fin 0) \<rparr>]"

definition cliques_negativos_sem_impressoes :: "linha_csv list" where
  "cliques_negativos_sem_impressoes = [registro_inteiro ''Google'' ''Marca'' 10 0 (- 3) 1 1 0]"

section \<open>Basic facts\<close>

text \<open>The recursive equations below are unfolded only where a concrete value is
  computed.\<close>

declare expo_up.simps [simp del] expo_down.simps [simp del] pairwise_sum.simps [simp del]
  dec_nat.simps [simp del]

lemma round64_zero: "round64 0 = Fin 0"
  by (simp add: round64_def)

lemma round64_nao_int: "\<not> e_int64 (round64 x)"
  by (simp add: round64_def Let_def)

lemma round64_notna: "round64 x \<noteq> NaN"
  by (simp add: round64_def Let_def)

lemma to_double_zero: "is_zero d \<Longrightarrow> to_double d = Fin 0"
  by (cases d) (simp_all add: round64_zero)

lemma tratar_fin: "is_fin (tratar v)"
  by (cases v) (simp_all add: tratar_def)

lemma tratar_Fin: "tratar (Fin a) = Fin a"
  by (simp add: tratar_def)

lemma fdiv64_zero: "fdiv64 y (Fin 0) = PInf \<or> fdiv64 y (Fin 0) = NInf \<or> fdiv64 y (Fin 0) = NaN"
  by (cases y) simp_all

lemma fdiv_zero_tratar: "is_zero d \<Longrightarrow> tratar (fdiv x d) = Fin 0"
  using fdiv64_zero [of "to_double x"]
  by (auto simp: fdiv_def to_double_zero tratar_def)

lemma fdiv_zero_mul_tratar:
  "is_zero d \<Longrightarrow> 0 < k \<Longrightarrow> tratar (fmul (fdiv x d) (Fin k)) = Fin 0"
  using fdiv64_zero [of "to_double x"]
  by (auto simp: fdiv_def fmul_def to_double_zero tratar_def)

lemma ctr_zero_impressoes:
  "is_zero d \<Longrightarrow> tratar (previne_maior_100 (fmul (fdiv x d) (Fin 100))) = Fin 0"
  using fdiv64_zero [of "to_double x"]
  by (auto simp: fdiv_def fmul_def to_double_zero tratar_def previne_maior_100_def fle_def)

lemma processar_linha_sel:
  "Plataforma (processar_linha csv r) = tratar_ident Plataforma_csv csv r"
  "Campanha (processar_linha csv r) = tratar_ident Campanha_csv csv r"
  "Investimento (processar_linha csv r) = tratar (coluna_numerica Investimento_csv csv r)"
  "Impressoes (processar_linha csv r) = tratar (coluna_numerica Impressoes_csv csv r)"
  "Cliques (processar_linha csv r) = tratar (coluna_numerica Cliques_csv csv r)"
  "Leads (processar_linha csv r) = tratar (coluna_numerica Leads_csv csv r)"
  "Novos_Clientes (processar_linha csv r) = tratar (coluna_numerica Novos_Clientes_csv csv r)"
  "Outros_Custos (processar_linha csv r) = tratar (coluna_numerica Outros_Custos_csv csv r)"
  "CTR (processar_linha csv r) =
     tratar (previne_maior_100 (fmul (fdiv (coluna_numerica Cliques_csv csv r)
       (coluna_numerica Impressoes_csv csv r)) (Fin 100)))"
  "CPC (processar_linha csv r) =
     tratar (fdiv (coluna_numerica Investimento_csv csv r) (coluna_numerica Cliques_csv csv r))"
  "CPM (processar_linha csv r) =
     tratar (fmul (fdiv (coluna_numerica Investimento_csv csv r)
       (coluna_numerica Impressoes_csv csv r)) (Fin 1000))"
  "CPL (processar_linha csv r) =
     tratar (fdiv (coluna_numerica Investimento_csv csv r) (coluna_numerica Leads_csv csv r))"
  "Custo_Total_Diario (processar_linha csv r) =
     tratar (fadd (coluna_numerica Investimento_csv csv r)
       (coluna_numerica Outros_Custos_csv csv r))"
  "CAC_Diario (processar_linha csv r) =
     tratar (fdiv (fadd (coluna_numerica Investimento_csv csv r)
       (coluna_numerica Outros_Custos_csv csv r)) (coluna_numerica Novos_Clientes_csv csv r))"
  by (simp_all add: processar_linha_def Let_def)

lemma carregar_nth:
  "i < length csv \<Longrightarrow> carregar_e_processar_dados csv ! i = processar_linha csv (csv ! i)"
  by (simp add: carregar_e_processar_dados_def)

lemma fmul_nao_int: "\<not> e_int64 (fmul a b)"
  unfolding fmul_def
  by (cases "(to_double a, to_double b)" rule: fmul64.cases) (simp_all add: round64_nao_int)

lemma ctr_valor:
  "tratar (previne_maior_100 x) = (if is_fin x \<and> fle x (Fin 100) then x else Fin 0)"
  by (cases x) (simp_all add: tratar_def previne_maior_100_def fle_def)

lemma chaves_df_campanhas: "map chave_grupo (df_campanhas df) = chaves_grupos df"
  by (simp add: df_campanhas_def agg_def chave_grupo_def comp_def Let_def)

lemma set_chaves_grupos: "set (chaves_grupos df) = chave ` set df"
  by (simp add: chaves_grupos_def)

lemma inj_ordem_chave: "inj ordem_chave"
proof (rule injI)
  fix j k assume "ordem_chave j = ordem_chave k"
  moreover have "ordem_ident a = ordem_ident b \<Longrightarrow> a = b" for a b
    by (cases a; cases b) simp_all
  ultimately show "j = k"
    by (cases j; cases k) (simp add: ordem_chave_def)
qed

lemma df_filtrado_carregar:
  "df_filtrado (carregar_e_processar_dados csv) ps cs =
     map (processar_linha csv)
       (filter (\<lambda>r. tratar_ident Plataforma_csv csv r \<in> set ps \<and>
                     tratar_ident Campanha_csv csv r \<in> set cs) csv)"
  by (simp add: df_filtrado_def carregar_e_processar_dados_def filter_map comp_def
      processar_linha_sel)

lemma chave_processar:
  "chave (processar_linha csv r) =
     (tratar_ident Plataforma_csv csv r, tratar_ident Campanha_csv csv r)"
  by (simp add: chave_def processar_linha_sel)

lemma uma_linha:
  "df_filtrado (carregar_e_processar_dados [r]) ps cs =
     (if tratar_ident Plataforma_csv [r] r \<in> set ps \<and> tratar_ident Campanha_csv [r] r \<in> set cs
      then [processar_linha [r] r] else [])"
  by (simp add: df_filtrado_carregar)

lemma vazia_zero: "campo r = Vazia \<Longrightarrow> tratar_ident campo csv r = Zero"
  by (simp add: tratar_ident_def)

text \<open>What is unfolded to compute with concrete numbers, and to read concrete cells.\<close>

lemmas calcular =
  round64_def expoente_def expo_up.simps expo_down.simps pow2_def arredonda_par_def Let_def
  fdiv_def fmul_def fle_def flt_def fgt_def fsub64_def em_int64_def wrap64_def

lemmas ler_numeros =
  coluna_numerica_def coluna_inteira_def em_int64_def registro_def registro_inteiro_def

lemmas ler =
  ler_numeros tratar_ident_def coluna_texto_def coluna_id_inteira_def

text \<open>Wrap-around and rounding at work. Two integers of \<open>2 ^ 63 - 1\<close> add up to
  \<open>- 2\<close>. The mean of the CTR of 9 and of 11 clicks on 1000 impressions is the double
  just below 1, and the mean of a group with the CPL values 1/3, 397/3 and 52/3 is the
  double just above 50.\<close>

lemma soma_da_a_volta:
  "pd_sum [Int64 (2 ^ 63 - 1), Int64 (2 ^ 63 - 1)] = Int64 (- 2)"
  by (simp add: pd_sum_def soma_int64_def wrap64_def)

lemma media_abaixo_de_um:
  "pd_mean [fmul (fdiv (Int64 9) (Int64 1000)) (Fin 100),
            fmul (fdiv (Int64 11) (Int64 1000)) (Fin 100)] =
     Fin (9007199254740991 / 9007199254740992)"
proof -
  have "fmul (fdiv (Int64 9) (Int64 1000)) (Fin 100) = Fin (2026619832316723 / 2251799813685248)"
    "fmul (fdiv (Int64 11) (Int64 1000)) (Fin 100) = Fin (4953959590107545 / 4503599627370496)"
    by (simp_all add: calcular)
  then show ?thesis
    by (simp add: pd_mean_def pairwise_sum.simps notna_def nan_para_zero_def calcular)
qed

lemma media_acima_de_50:
  "grupo_mean [fdiv (Int64 1) (Int64 3), fdiv (Int64 397) (Int64 3), fdiv (Int64 52) (Int64 3)] =
     Fin (7036874417766401 / 140737488355328)"
proof -
  have "fdiv (Int64 1) (Int64 3) = Fin (6004799503160661 / 18014398509481984)"
    "fdiv (Int64 397) (Int64 3) = Fin (4656065239755435 / 35184372088832)"
    "fdiv (Int64 52) (Int64 3) = Fin (4878899596318037 / 281474976710656)"
    by (simp_all add: calcular)
  then show ?thesis
    by (simp add: grupo_mean_def notna_def calcular)
qed

section \<open>Claims about the metric calculator\<close>

text \<open>
  C1. Whenever the denominator of a metric is zero in an input row (clicks for CPC,
  impressions for CTR and CPM, leads for CPL, new clients for the daily CAC; the value
  after the numeric coercion, an integer or a float zero), that metric is exactly 0 in
  the row returned at the same position; and every derived field of every returned
  row is a finite number, never an infinity and never not-a-number.
\<close>

theorem zero_denominator_metric_is_zero:
  assumes "i < length csv"
  shows "(let r = csv ! i; p = carregar_e_processar_dados csv ! i in
     (is_zero (coluna_numerica Cliques_csv csv r) \<longrightarrow> CPC p = Fin 0) \<and>
     (is_zero (coluna_numerica Impressoes_csv csv r) \<longrightarrow> CTR p = Fin 0 \<and> CPM p = Fin 0) \<and>
     (is_zero (coluna_numerica Leads_csv csv r) \<longrightarrow> CPL p = Fin 0) \<and>
     (is_zero (coluna_numerica Novos_Clientes_csv csv r) \<longrightarrow> CAC_Diario p = Fin 0) \<and>
     is_fin (CTR p) \<and> is_fin (CPC p) \<and> is_fin (CPM p) \<and> is_fin (CPL p) \<and>
     is_fin (Custo_Total_Diario p) \<and> is_fin (CAC_Diario p))"
  unfolding Let_def carregar_nth [OF assms] processar_linha_sel
  by (simp add: fdiv_zero_tratar fdiv_zero_mul_tratar ctr_zero_impressoes tratar_fin)

text \<open>The row of the specification's zero scenario: investment 50, everything else
  0, once with decimal and once with integer cells.\<close>

theorem zero_denominator_metric_is_zero_witness:
  "CTR (carregar_e_processar_dados [registro ''Google'' ''Marca'' 50 0 0 0 0 0] ! 0) = Fin 0 \<and>
   CPC (carregar_e_processar_dados [registro ''Google'' ''Marca'' 50 0 0 0 0 0] ! 0) = Fin 0 \<and>
   CPM (carregar_e_processar_dados [registro ''Google'' ''Marca'' 50 0 0 0 0 0] ! 0) = Fin 0 \<and>
   CPL (carregar_e_processar_dados [registro ''Google'' ''Marca'' 50 0 0 0 0 0] ! 0) = Fin 0 \<and>
   CAC_Diario (carregar_e_processar_dados [registro ''Google'' ''Marca'' 50 0 0 0 0 0] ! 0) = Fin 0 \<and>
   CPC (carregar_e_processar_dados [registro_inteiro ''Google'' ''Marca'' 50 0 0 0 0 0] ! 0) = Fin 0 \<and>
   CAC_Diario (carregar_e_processar_dados [registro_inteiro ''Google'' ''Marca'' 50 0 0 0 0 0] ! 0) = Fin 0"
  using zero_denominator_metric_is_zero [of 0 "[registro ''Google'' ''Marca'' 50 0 0 0 0 0]"]
    zero_denominator_metric_is_zero [of 0 "[registro_inteiro ''Google'' ''Marca'' 50 0 0 0 0 0]"]
  by (simp add: Let_def ler round64_zero)

text \<open>
  C2 (as the code has it). For every row, with \<open>x\<close> the value the code computes for
  clicks / impressions * 100: the CTR returned is \<open>x\<close> when \<open>x\<close> is a finite number
  of at most 100, and 0 in every other case. So it is 0 when impressions are 0, it is
  reset to 0 (not to 100) when \<open>x\<close> exceeds 100, exactly 100 is kept, and it is also
  0 when \<open>x\<close> is minus infinity or not-a-number.
\<close>

theorem ctr_rule:
  assumes "k < length csv"
  shows "(let r = csv ! k; p = carregar_e_processar_dados csv ! k;
              impressoes = coluna_numerica Impressoes_csv csv r;
              x = fmul (fdiv (coluna_numerica Cliques_csv csv r) impressoes) (Fin 100)
          in CTR p = (if is_fin x \<and> fle x (Fin 100) then x else Fin 0) \<and>
             (is_zero impressoes \<longrightarrow> CTR p = Fin 0) \<and>
             (fgt x (Fin 100) \<longrightarrow> CTR p = Fin 0) \<and>
             (x = Fin 100 \<longrightarrow> CTR p = Fin 100))"
proof -
  let ?i = "coluna_numerica Impressoes_csv csv (csv ! k)"
  let ?x = "fmul (fdiv (coluna_numerica Cliques_csv csv (csv ! k)) ?i) (Fin 100)"
  have ctr: "CTR (carregar_e_processar_dados csv ! k) =
               (if is_fin ?x \<and> fle ?x (Fin 100) then ?x else Fin 0)"
    by (simp only: carregar_nth [OF assms] processar_linha_sel ctr_valor)
  have zero: "CTR (carregar_e_processar_dados csv ! k) = Fin 0" if "is_zero ?i"
    using that by (simp only: carregar_nth [OF assms] processar_linha_sel ctr_zero_impressoes)
  have acima: "\<not> fle ?x (Fin 100)" if "fgt ?x (Fin 100)"
    using that fmul_nao_int [of "fdiv (coluna_numerica Cliques_csv csv (csv ! k)) ?i" "Fin 100"]
    by (cases ?x) (simp_all add: fgt_def flt_def fle_def)
  show ?thesis
    unfolding Let_def using ctr zero acima by (auto simp: fle_def)
qed

text \<open>8 clicks on 1024 impressions give 0.78125; 7 on 7 give exactly 100, kept; 8 on
  7 are above 100 and give 0; 3 clicks on no impressions give 0.\<close>

theorem ctr_rule_witness:
  "CTR (carregar_e_processar_dados [registro_inteiro ''A'' ''x'' 100 1024 8 10 2 20] ! 0) = Fin (25 / 32) \<and>
   CTR (carregar_e_processar_dados [registro_inteiro ''A'' ''x'' 100 7 7 10 2 20] ! 0) = Fin 100 \<and>
   CTR (carregar_e_processar_dados [registro_inteiro ''A'' ''x'' 100 7 8 10 2 20] ! 0) = Fin 0 \<and>
   CTR (carregar_e_processar_dados [registro_inteiro ''A'' ''x'' 100 0 3 10 2 20] ! 0) = Fin 0"
proof -
  let ?a = "[registro_inteiro ''A'' ''x'' 100 1024 8 10 2 20]"
  let ?b = "[registro_inteiro ''A'' ''x'' 100 7 7 10 2 20]"
  let ?c = "[registro_inteiro ''A'' ''x'' 100 7 8 10 2 20]"
  let ?d = "[registro_inteiro ''A'' ''x'' 100 0 3 10 2 20]"
  have a: "fmul (fdiv (coluna_numerica Cliques_csv ?a (?a ! 0))
                      (coluna_numerica Impressoes_csv ?a (?a ! 0))) (Fin 100) = Fin (25 / 32)"
    by (simp add: ler calcular)
  have b: "fmul (fdiv (coluna_numerica Cliques_csv ?b (?b ! 0))
                      (coluna_numerica Impressoes_csv ?b (?b ! 0))) (Fin 100) = Fin 100"
    by (simp add: ler calcular)
  have c: "fgt (fmul (fdiv (coluna_numerica Cliques_csv ?c (?c ! 0))
                      (coluna_numerica Impressoes_csv ?c (?c ! 0))) (Fin 100)) (Fin 100)"
    by (simp add: ler calcular)
  have d: "is_zero (coluna_numerica Impressoes_csv ?d (?d ! 0))"
    by (simp add: ler)
  from ctr_rule [of 0 ?a] have "CTR (carregar_e_processar_dados ?a ! 0) = Fin (25 / 32)"
    unfolding Let_def a by (simp add: fle_def)
  moreover from ctr_rule [of 0 ?b] have "CTR (carregar_e_processar_dados ?b ! 0) = Fin 100"
    unfolding Let_def b by (simp add: fle_def)
  moreover have "0 < length ?c" by simp
  from ctr_rule [OF this, unfolded Let_def] c
  have "CTR (carregar_e_processar_dados ?c ! 0) = Fin 0"
    by blast
  moreover have "0 < length ?d" by simp
  from ctr_rule [OF this, unfolded Let_def] d
  have "CTR (carregar_e_processar_dados ?d ! 0) = Fin 0"
    by blast
  ultimately show ?thesis by simp
qed

text \<open>C2 as stated fails: with minus infinity in the clicks cell and one impression,
  impressions are positive and clicks / impressions * 100 is minus infinity, which
  passes the guard of line 29; line 46 then replaces it, and the CTR returned is 0.\<close>

theorem ctr_infinite_ratio_counterexample:
  "flt (Fin 0) (coluna_numerica Impressoes_csv cliques_menos_infinito (cliques_menos_infinito ! 0)) \<and>
   fmul (fdiv (coluna_numerica Cliques_csv cliques_menos_infinito (cliques_menos_infinito ! 0))
               (coluna_numerica Impressoes_csv cliques_menos_infinito (cliques_menos_infinito ! 0)))
        (Fin 100) = NInf \<and>
   CTR (carregar_e_processar_dados cliques_menos_infinito ! 0) = Fin 0"
  by (simp add: cliques_menos_infinito_def carregar_e_processar_dados_def processar_linha_sel ler
      calcular previne_maior_100_def tratar_def)

text \<open>
  C9. The single row with investment 100, impressions 1000, clicks 50, leads 10,
  new clients 2 and other costs 20 comes back with CTR 5, CPC 2, CPM 100, CPL 10,
  total daily cost 120 and daily CAC 60, whatever its identifiers are, with decimal
  cells and with integer cells alike.
\<close>

theorem scenario_record:
  "(let r = \<lparr> Plataforma_csv = p, Campanha_csv = c,
              Investimento_csv = Numero (Fin 100), Impressoes_csv = Numero (Fin 1000),
              Cliques_csv = Numero (Fin 50), Leads_csv = Numero (Fin 10),
              Novos_Clientes_csv = Numero (Fin 2), Outros_Custos_csv = Numero (Fin 20) \<rparr>
    in carregar_e_processar_dados [r] =
         [\<lparr> Plataforma = tratar_ident Plataforma_csv [r] r,
            Campanha = tratar_ident Campanha_csv [r] r,
            Investimento = Fin 100, Impressoes = Fin 1000, Cliques = Fin 50, Leads = Fin 10,
            Novos_Clientes = Fin 2, Outros_Custos = Fin 20,
            CTR = Fin 5, CPC = Fin 2, CPM = Fin 100, CPL = Fin 10,
            Custo_Total_Diario = Fin 120, CAC_Diario = Fin 60 \<rparr>]) \<and>
   (let r = \<lparr> Plataforma_csv = p, Campanha_csv = c,
              Investimento_csv = Numero (Int64 100), Impressoes_csv = Numero (Int64 1000),
              Cliques_csv = Numero (Int64 50), Leads_csv = Numero (Int64 10),
              Novos_Clientes_csv = Numero (Int64 2), Outros_Custos_csv = Numero (Int64 20) \<rparr>
    in carregar_e_processar_dados [r] =
         [\<lparr> Plataforma = tratar_ident Plataforma_csv [r] r,
            Campanha = tratar_ident Campanha_csv [r] r,
            Investimento = Int64 100, Impressoes = Int64 1000, Cliques = Int64 50,
            Leads = Int64 10, Novos_Clientes = Int64 2, Outros_Custos = Int64 20,
            CTR = Fin 5, CPC = Fin 2, CPM = Fin 100, CPL = Fin 10,
            Custo_Total_Diario = Int64 120, CAC_Diario = Fin 60 \<rparr>])"
proof -
  have f: "round64 100 = Fin 100" "round64 1000 = Fin 1000" "round64 50 = Fin 50"
    "round64 10 = Fin 10" "round64 2 = Fin 2" "round64 20 = Fin 20"
    "round64 120 = Fin 120" "wrap64 120 = 120"
    by (simp_all add: calcular)
  have a: "fmul (fdiv (Fin 50) (Fin 1000)) (Fin 100) = Fin 5"
    "fmul (fdiv (Fin 100) (Fin 1000)) (Fin 1000) = Fin 100"
    "fdiv (Fin 100) (Fin 50) = Fin 2" "fdiv (Fin 100) (Fin 10) = Fin 10"
    "fdiv (Fin 120) (Fin 2) = Fin 60"
    by (simp_all add: calcular)
  have b: "fmul (fdiv (Int64 50) (Int64 1000)) (Fin 100) = Fin 5"
    "fmul (fdiv (Int64 100) (Int64 1000)) (Fin 1000) = Fin 100"
    "fdiv (Int64 100) (Int64 50) = Fin 2" "fdiv (Int64 100) (Int64 10) = Fin 10"
    "fdiv (Int64 120) (Int64 2) = Fin 60"
    by (simp_all add: calcular)
  show ?thesis
    by (simp add: carregar_e_processar_dados_def processar_linha_def Let_def ler_numeros
        f a b fle_def previne_maior_100_def tratar_def)
qed

text \<open>
  C10 (as the code has it). The CTR of every returned row is at most 100. The guard
  of line 29 is one-sided: a computed value that is finite and at most 100 is
  returned unchanged, so exactly 100 is preserved and a finite negative value passes
  through. A computed value of minus infinity passes the guard too, but line 46 then
  resets it to 0.
\<close>

theorem ctr_at_most_100:
  assumes "k < length csv"
  shows "(let r = csv ! k; p = carregar_e_processar_dados csv ! k;
              x = fmul (fdiv (coluna_numerica Cliques_csv csv r)
                             (coluna_numerica Impressoes_csv csv r)) (Fin 100)
          in fle (CTR p) (Fin 100) \<and>
             (is_fin x \<and> fle x (Fin 100) \<longrightarrow> CTR p = x) \<and>
             (x = NInf \<longrightarrow> previne_maior_100 x = NInf \<and> CTR p = Fin 0))"
proof -
  let ?x = "fmul (fdiv (coluna_numerica Cliques_csv csv (csv ! k))
                       (coluna_numerica Impressoes_csv csv (csv ! k))) (Fin 100)"
  have ctr: "CTR (carregar_e_processar_dados csv ! k) =
               (if is_fin ?x \<and> fle ?x (Fin 100) then ?x else Fin 0)"
    by (simp only: carregar_nth [OF assms] processar_linha_sel ctr_valor)
  have le: "fle (if is_fin x \<and> fle x (Fin 100) then x else Fin 0) (Fin 100)" for x
    by (simp add: fle_def)
  have inf: "previne_maior_100 NInf = NInf"
    by (simp add: previne_maior_100_def fle_def)
  show ?thesis
    unfolding Let_def ctr using le [of ?x] inf by auto
qed

text \<open>Minus 8 clicks on 128 impressions give a CTR of minus 6.25; 7 on 7 give 100.\<close>

theorem ctr_at_most_100_witness:
  "CTR (carregar_e_processar_dados [registro_inteiro ''A'' ''x'' 100 128 (- 8) 10 2 20] ! 0) = Fin (- (25 / 4)) \<and>
   CTR (carregar_e_processar_dados [registro_inteiro ''A'' ''x'' 100 7 7 10 2 20] ! 0) = Fin 100 \<and>
   fle (CTR (carregar_e_processar_dados [registro_inteiro ''A'' ''x'' 100 7 8 10 2 20] ! 0)) (Fin 100)"
proof -
  let ?a = "[registro_inteiro ''A'' ''x'' 100 128 (- 8) 10 2 20]"
  let ?b = "[registro_inteiro ''A'' ''x'' 100 7 7 10 2 20]"
  let ?c = "[registro_inteiro ''A'' ''x'' 100 7 8 10 2 20]"
  have a: "fmul (fdiv (coluna_numerica Cliques_csv ?a (?a ! 0))
                      (coluna_numerica Impressoes_csv ?a (?a ! 0))) (Fin 100) = Fin (- (25 / 4))"
    by (simp add: ler calcular)
  have b: "fmul (fdiv (coluna_numerica Cliques_csv ?b (?b ! 0))
                      (coluna_numerica Impressoes_csv ?b (?b ! 0))) (Fin 100) = Fin 100"
    by (simp add: ler calcular)
  from ctr_at_most_100 [of 0 ?a] have "CTR (carregar_e_processar_dados ?a ! 0) = Fin (- (25 / 4))"
    unfolding Let_def a by (simp add: fle_def)
  moreover from ctr_at_most_100 [of 0 ?b] have "CTR (carregar_e_processar_dados ?b ! 0) = Fin 100"
    unfolding Let_def b by (simp add: fle_def)
  moreover have "0 < length ?c" by simp
  from ctr_at_most_100 [OF this, unfolded Let_def]
  have "fle (CTR (carregar_e_processar_dados ?c ! 0)) (Fin 100)"
    by blast
  ultimately show ?thesis by simp
qed

text \<open>C10 as stated fails: minus 3 clicks on no impressions give a computed CTR of
  minus infinity, a negative value, and the CTR returned is 0.\<close>

theorem negative_ctr_reset_counterexample:
  "fmul (fdiv (coluna_numerica Cliques_csv cliques_negativos_sem_impressoes
                 (cliques_negativos_sem_impressoes ! 0))
               (coluna_numerica Impressoes_csv cliques_negativos_sem_impressoes
                 (cliques_negativos_sem_impressoes ! 0)))
        (Fin 100) = NInf \<and>
   flt NInf (Fin 0) \<and>
   CTR (carregar_e_processar_dados cliques_negativos_sem_impressoes ! 0) = Fin 0"
  by (simp add: cliques_negativos_sem_impressoes_def carregar_e_processar_dados_def
      processar_linha_sel ler calcular previne_maior_100_def tratar_def)

section \<open>Claims about the aggregator and the insights\<close>


text \<open>
  C4 (where the code fails). A campaign named by a number: its only row has a CPL of
  100, so its row of the campaign table is above the limit of 50 and the rule has to
  name it. The join of line 133 raises \<open>TypeError\<close> instead, and the run ends
  without an insight.
\<close>

theorem high_cpl_join_type_error:
  "map (\<lambda>r. (Campanha r, CPL r))
     (df_filtrado (carregar_e_processar_dados campanha_numerica) [Nome ''Google''] [Num 2024]) =
     [(Num 2024, Fin 100)] \<and>
   map (\<lambda>g. (Campanha_grupo g, CPL_Medio g))
     (df_campanhas
       (df_filtrado (carregar_e_processar_dados campanha_numerica) [Nome ''Google''] [Num 2024])) =
     [(Num 2024, Fin 100)] \<and>
   app campanha_numerica [Nome ''Google''] [Num 2024] = Inl TypeError"
proof -
  let ?r = "hd campanha_numerica"
  let ?p = "processar_linha campanha_numerica ?r"
  have df: "df_filtrado (carregar_e_processar_dados campanha_numerica) [Nome ''Google''] [Num 2024] = [?p]"
    by (simp add: campanha_numerica_def uma_linha ler)
  have ids: "Plataforma ?p = Nome ''Google''" "Campanha ?p = Num 2024"
    by (simp_all add: campanha_numerica_def processar_linha_sel ler)
  have cpl: "CPL ?p = Fin 100"
    by (simp add: campanha_numerica_def processar_linha_sel ler calcular tratar_def)
  have media: "grupo_mean [Fin 100] = Fin 100"
    by (simp add: grupo_mean_def notna_def calcular)
  have tab: "map (\<lambda>g. (Campanha_grupo g, CPL_Medio g)) (df_campanhas [?p]) = [(Num 2024, Fin 100)]"
    by (simp add: df_campanhas_def chaves_grupos_def agg_def chave_def ids cpl media)
  have alto: "map Campanha_grupo (campanhas_cpl_alto (df_campanhas [?p])) = [Num 2024]"
    by (simp add: df_campanhas_def chaves_grupos_def agg_def chave_def ids cpl media
        campanhas_cpl_alto_def cpl_limite_alerta_def fgt_def flt_def)
  have "insight_cpl (df_campanhas [?p]) = Inl TypeError"
    using alto by (auto simp: insight_cpl_def)
  then show ?thesis
    unfolding df by (simp add: app_def Let_def df ids cpl tab)
qed

text \<open>
  C5 (where the code fails). On the same frame the total investment is positive and
  the mean CTR is 0.78125, so the rule of line 140 would show the warning; the
  \<open>TypeError\<close> of line 133 ends the run before it does.
\<close>

theorem low_ctr_warning_lost:
  "insight_ctr
     (total_investimento
        (df_filtrado (carregar_e_processar_dados campanha_numerica) [Nome ''Google''] [Num 2024]))
     (ctr_medio
        (df_filtrado (carregar_e_processar_dados campanha_numerica) [Nome ''Google''] [Num 2024])) =
     [Atencao_CTR (Fin (25 / 32))] \<and>
   app campanha_numerica [Nome ''Google''] [Num 2024] = Inl TypeError"
proof -
  let ?p = "processar_linha campanha_numerica (hd campanha_numerica)"
  have df: "df_filtrado (carregar_e_processar_dados campanha_numerica) [Nome ''Google''] [Num 2024] = [?p]"
    by (simp add: campanha_numerica_def uma_linha ler)
  have ids: "Plataforma ?p = Nome ''Google''" "Campanha ?p = Num 2024"
    by (simp_all add: campanha_numerica_def processar_linha_sel ler)
  have cols: "Investimento ?p = Int64 100" "CTR ?p = Fin (25 / 32)" "CPL ?p = Fin 100"
    by (simp_all add: campanha_numerica_def processar_linha_sel ler calcular tratar_def
        previne_maior_100_def)
  have ctr: "insight_ctr (total_investimento [?p]) (ctr_medio [?p]) = [Atencao_CTR (Fin (25 / 32))]"
    by (simp add: insight_ctr_def total_investimento_def ctr_medio_def cols pd_sum_def
        soma_int64_def pd_mean_def pairwise_sum.simps notna_def nan_para_zero_def calcular)
  have media: "grupo_mean [Fin 100] = Fin 100"
    by (simp add: grupo_mean_def notna_def calcular)
  have alto: "map Campanha_grupo (campanhas_cpl_alto (df_campanhas [?p])) = [Num 2024]"
    by (simp add: df_campanhas_def chaves_grupos_def agg_def chave_def ids cols media
        campanhas_cpl_alto_def cpl_limite_alerta_def fgt_def flt_def)
  have "insight_cpl (df_campanhas [?p]) = Inl TypeError"
    using alto by (auto simp: insight_cpl_def)
  then show ?thesis
    unfolding df ctr by (simp add: app_def Let_def df)
qed

text \<open>
  C6 (as the code has it). A row whose platform or campaign cell is missing is not
  rejected. The function puts the number 0 in place of the missing identifier, and if
  the row passes the filters it is in the filtered frame and the campaign table has a
  row for its key, with that 0 in it.
\<close>

theorem missing_identifier_grouped_under_zero:
  assumes "k < length csv"
  shows "(let r = csv ! k; p = carregar_e_processar_dados csv ! k;
              df = df_filtrado (carregar_e_processar_dados csv) ps cs
          in (Plataforma_csv r = Vazia \<longrightarrow> Plataforma p = Zero) \<and>
             (Campanha_csv r = Vazia \<longrightarrow> Campanha p = Zero) \<and>
             (Plataforma p \<in> set ps \<and> Campanha p \<in> set cs \<longrightarrow>
                p \<in> set df \<and>
                (\<exists>g\<in>set (df_campanhas df).
                   Plataforma_grupo g = Plataforma p \<and> Campanha_grupo g = Campanha p)))"
proof -
  let ?p = "carregar_e_processar_dados csv ! k"
  let ?df = "df_filtrado (carregar_e_processar_dados csv) ps cs"
  have p: "?p = processar_linha csv (csv ! k)"
    by (rule carregar_nth [OF assms])
  have zero: "Plataforma_csv (csv ! k) = Vazia \<longrightarrow> Plataforma ?p = Zero"
    "Campanha_csv (csv ! k) = Vazia \<longrightarrow> Campanha ?p = Zero"
    by (simp_all add: p processar_linha_sel vazia_zero)
  have grupo: "?p \<in> set ?df \<and>
      (\<exists>g\<in>set (df_campanhas ?df).
         Plataforma_grupo g = Plataforma ?p \<and> Campanha_grupo g = Campanha ?p)"
    if sel: "Plataforma ?p \<in> set ps \<and> Campanha ?p \<in> set cs"
  proof -
    have "?p \<in> set (carregar_e_processar_dados csv)"
      using assms by (simp add: carregar_e_processar_dados_def)
    with sel have mem: "?p \<in> set ?df"
      by (simp add: df_filtrado_def)
    then have "chave ?p \<in> set (map chave_grupo (df_campanhas ?df))"
      by (simp only: chaves_df_campanhas set_chaves_grupos) simp
    then have "\<exists>g\<in>set (df_campanhas ?df).
         Plataforma_grupo g = Plataforma ?p \<and> Campanha_grupo g = Campanha ?p"
      by (auto simp: chave_def chave_grupo_def)
    with mem show ?thesis by simp
  qed
  show ?thesis
    unfolding Let_def using zero grupo by blast
qed

theorem missing_identifier_grouped_under_zero_witness:
  "Campanha (carregar_e_processar_dados sem_campanha ! 0) = Zero \<and>
   (\<exists>g\<in>set (df_campanhas
              (df_filtrado (carregar_e_processar_dados sem_campanha) [Nome ''Google''] [Zero])).
      Plataforma_grupo g = Nome ''Google'' \<and> Campanha_grupo g = Zero)"
proof -
  have len: "0 < length sem_campanha"
    by (simp add: sem_campanha_def)
  have vazia: "Campanha_csv (sem_campanha ! 0) = Vazia"
    by (simp add: sem_campanha_def)
  have plat: "Plataforma (carregar_e_processar_dados sem_campanha ! 0) = Nome ''Google''"
    by (simp add: carregar_nth [OF len] processar_linha_sel) (simp add: sem_campanha_def ler)
  from missing_identifier_grouped_under_zero
         [OF len, of "[Nome ''Google'']" "[Zero]", unfolded Let_def] vazia
  have camp: "Campanha (carregar_e_processar_dados sem_campanha ! 0) = Zero"
    by blast
  from missing_identifier_grouped_under_zero
         [OF len, of "[Nome ''Google'']" "[Zero]", unfolded Let_def]
  show ?thesis
    unfolding plat camp by simp
qed

text \<open>C6 as stated fails: the run on a row without a campaign does not raise; it
  shows a campaign table whose only row is grouped under the campaign 0.\<close>

theorem missing_identifier_counterexample:
  "app sem_campanha [Nome ''Google''] [Zero] =
     Inr (Painel
       \<lparr> kpi_cpc_medio = Fin (5 / 4), kpi_ctr_medio = Fin (25 / 4),
         kpi_cpl_medio = Fin 10, kpi_cac_geral = Fin 10 \<rparr>
       [\<lparr> Plataforma_grupo = Nome ''Google'', Campanha_grupo = Zero,
           Investimento_grupo = Int64 10, Leads_grupo = Int64 1, Clientes = Int64 1,
           CPL_Medio = Fin 10, CTR_Medio = Fin (25 / 4) \<rparr>]
       [CPL_Ok])"
proof -
  let ?p = "processar_linha sem_campanha (hd sem_campanha)"
  have df: "df_filtrado (carregar_e_processar_dados sem_campanha) [Nome ''Google''] [Zero] = [?p]"
    by (simp add: sem_campanha_def uma_linha ler)
  have ids: "Plataforma ?p = Nome ''Google''" "Campanha ?p = Zero"
    by (simp_all add: sem_campanha_def processar_linha_sel ler)
  have cols: "Investimento ?p = Int64 10" "Leads ?p = Int64 1" "Novos_Clientes ?p = Int64 1"
    "Custo_Total_Diario ?p = Int64 10"
    by (simp_all add: sem_campanha_def processar_linha_sel ler tratar_def wrap64_def)
  have met: "CPC ?p = Fin (5 / 4)" "CTR ?p = Fin (25 / 4)" "CPL ?p = Fin 10"
    by (simp_all add: sem_campanha_def processar_linha_sel ler calcular tratar_def
        previne_maior_100_def)
  have kpis: "painel_kpis [?p] =
      \<lparr> kpi_cpc_medio = Fin (5 / 4), kpi_ctr_medio = Fin (25 / 4),
        kpi_cpl_medio = Fin 10, kpi_cac_geral = Fin 10 \<rparr>"
    by (simp add: painel_kpis_def cpc_medio_def ctr_medio_def cpl_medio_def cac_geral_def
        total_leads_def total_investimento_def total_clientes_def cols met
        pd_sum_def soma_int64_def pd_mean_def pairwise_sum.simps notna_def nan_para_zero_def
        calcular)
  have tab: "df_campanhas [?p] =
      [\<lparr> Plataforma_grupo = Nome ''Google'', Campanha_grupo = Zero,
          Investimento_grupo = Int64 10, Leads_grupo = Int64 1, Clientes = Int64 1,
          CPL_Medio = Fin 10, CTR_Medio = Fin (25 / 4) \<rparr>]"
    by (simp add: df_campanhas_def chaves_grupos_def agg_def chave_def ids cols met
        grupo_sum_def soma_int64_def grupo_mean_def notna_def calcular)
  have ins: "insight_cpl (df_campanhas [?p]) = Inr CPL_Ok"
    unfolding tab by (simp add: insight_cpl_def campanhas_cpl_alto_def cpl_limite_alerta_def
        fgt_def flt_def)
  have fig: "fig_leads (df_campanhas [?p]) = None"
    unfolding tab by (simp add: fig_leads_def flt_def round64_def calcular)
  have ctr: "insight_ctr (total_investimento [?p]) (ctr_medio [?p]) = []"
    by (simp add: insight_ctr_def ctr_medio_def met pd_mean_def pairwise_sum.simps notna_def
        nan_para_zero_def calcular)
  show ?thesis
    unfolding app_def Let_def df ins fig ctr kpis by (simp add: tab)
qed

text \<open>
  C7 (as the code has it). The rows of the campaign table are in strictly ascending
  order of their (platform, campaign) key, one row for each key that occurs in the
  frame. For keys made of names this is the lexicographic order of the platform name,
  then of the campaign name; numbers are ordered by value and come before names.
\<close>

theorem campaign_table_sorted_by_key:
  "sorted_wrt (\<lambda>g h. ordem_chave (chave_grupo g) < ordem_chave (chave_grupo h))
     (df_campanhas df) \<and>
   set (map chave_grupo (df_campanhas df)) = set (map chave df) \<and>
   (ordem_chave (Nome p, Nome c) < ordem_chave (Nome p', Nome c') \<longleftrightarrow>
      p < p' \<or> (p = p' \<and> c < c')) \<and>
   (ordem_ident (Num m) < ordem_ident (Num n) \<longleftrightarrow> m < n) \<and>
   ordem_ident (Num m) < ordem_ident (Nome p)"
proof -
  have "sorted (map ordem_chave (chaves_grupos df))"
    by (simp add: chaves_grupos_def)
  moreover have "inj_on ordem_chave (set (chaves_grupos df))"
    using inj_ordem_chave by (rule inj_on_subset) simp
  then have "distinct (map ordem_chave (chaves_grupos df))"
    by (simp add: chaves_grupos_def distinct_map)
  ultimately have "sorted_wrt (<) (map ordem_chave (map chave_grupo (df_campanhas df)))"
    by (simp add: strict_sorted_iff chaves_df_campanhas)
  then have "sorted_wrt (\<lambda>g h. ordem_chave (chave_grupo g) < ordem_chave (chave_grupo h))
     (df_campanhas df)"
    by (simp add: sorted_wrt_map)
  moreover have "set (map chave_grupo (df_campanhas df)) = set (map chave df)"
    by (simp only: chaves_df_campanhas set_chaves_grupos) simp
  moreover have "ordem_chave (Nome p, Nome c) < ordem_chave (Nome p', Nome c') \<longleftrightarrow>
      p < p' \<or> (p = p' \<and> c < c')"
    by (auto simp: ordem_chave_def less_prod_def)
  moreover have "ordem_ident (Num m) < ordem_ident (Num n) \<longleftrightarrow> m < n"
    by (auto simp: less_prod_def)
  moreover have "ordem_ident (Num m) < ordem_ident (Nome p)"
    by (simp add: less_prod_def)
  ultimately show ?thesis by blast
qed

text \<open>C7 as stated fails: with Meta/Promo before Google/Marca in the input, the
  table starts with Google/Marca, which is not the first-seen order.\<close>

theorem first_seen_order_counterexample:
  "map chave (carregar_e_processar_dados dados_alerta) =
     [(Nome ''Meta'', Nome ''Promo''), (Nome ''Google'', Nome ''Marca'')] \<and>
   primeira_ocorrencia (map chave (carregar_e_processar_dados dados_alerta)) =
     [(Nome ''Meta'', Nome ''Promo''), (Nome ''Google'', Nome ''Marca'')] \<and>
   map chave_grupo (df_campanhas (carregar_e_processar_dados dados_alerta)) =
     [(Nome ''Google'', Nome ''Marca''), (Nome ''Meta'', Nome ''Promo'')] \<and>
   map chave_grupo (df_campanhas (carregar_e_processar_dados dados_alerta)) \<noteq>
     primeira_ocorrencia (map chave (carregar_e_processar_dados dados_alerta))"
proof -
  have chaves: "map chave (carregar_e_processar_dados dados_alerta) =
     [(Nome ''Meta'', Nome ''Promo''), (Nome ''Google'', Nome ''Marca'')]"
    by (simp add: carregar_e_processar_dados_def chave_processar dados_alerta_def ler)
  have ordem: "chaves_grupos (carregar_e_processar_dados dados_alerta) =
     [(Nome ''Google'', Nome ''Marca''), (Nome ''Meta'', Nome ''Promo'')]"
    unfolding chaves_grupos_def chaves
    by (simp add: ordem_chave_def less_eq_prod_def less_prod_def)
  show ?thesis
    unfolding chaves_df_campanhas ordem chaves by simp
qed

text \<open>
  C8 (as the code has it). When the filters leave no row, the run does not raise and
  shows the no-data notice only: no campaign table, no insight, and no key figures at
  all.
\<close>

theorem empty_filter_shows_only_notice:
  assumes "df_filtrado (carregar_e_processar_dados csv) ps cs = []"
  shows "app csv ps cs = Inr Nenhum_Dado"
  using assms by (simp add: app_def Let_def)

theorem empty_filter_shows_only_notice_witness:
  "app dados_alerta [Nome ''Google''] [] = Inr Nenhum_Dado \<and> app [] [] [] = Inr Nenhum_Dado"
proof -
  have "df_filtrado (carregar_e_processar_dados dados_alerta) [Nome ''Google''] [] = []"
    by (simp add: df_filtrado_def)
  moreover have "df_filtrado (carregar_e_processar_dados []) [] [] = []"
    by (simp add: df_filtrado_def)
  ultimately show ?thesis
    using empty_filter_shows_only_notice [of dados_alerta "[Nome ''Google'']" "[]"]
      empty_filter_shows_only_notice [of "[]" "[]" "[]"] by simp
qed

text \<open>C8 as stated fails: for a selection that matches no row the run yields the
  notice, not a panel of key figures that are all zero.\<close>

theorem empty_filter_zero_kpis_counterexample:
  "df_filtrado (carregar_e_processar_dados dados_alerta) [Nome ''TikTok''] [Nome ''Promo''] = [] \<and>
   app dados_alerta [Nome ''TikTok''] [Nome ''Promo''] = Inr Nenhum_Dado \<and>
   app dados_alerta [Nome ''TikTok''] [Nome ''Promo''] \<noteq>
     Inr (Painel \<lparr> kpi_cpc_medio = Fin 0, kpi_ctr_medio = Fin 0,
                   kpi_cpl_medio = Fin 0, kpi_cac_geral = Fin 0 \<rparr> [] [])"
proof -
  have "df_filtrado (carregar_e_processar_dados dados_alerta) [Nome ''TikTok''] [Nome ''Promo''] = []"
    unfolding df_filtrado_carregar by (simp add: dados_alerta_def ler)
  then show ?thesis
    by (simp add: app_def Let_def)
qed

end
